theory Spec2Isabelle
  imports Main "HOL-Library.AList" "HOL-Library.Monad_Syntax"
begin

section \<open>Characters, strings and numbers\<close>

text \<open>
  File names and paths are ASCII strings. Python's \<^verbatim>\<open>\d\<close> and \<^verbatim>\<open>int()\<close> also accept
  the decimal digits of other scripts; here a digit is one of \<^verbatim>\<open>0\<close> to \<^verbatim>\<open>9\<close>.
\<close>

definition bslash :: char where
  "bslash = CHR 0x5C"

definition apos :: char where
  "apos = CHR 0x27"

definition newline :: char where
  "newline = CHR 0x0A"

definition is_digit :: "char \<Rightarrow> bool" where
  "is_digit c = (c \<in> set ''0123456789'')"

definition digit_val :: "char \<Rightarrow> nat" where
  "digit_val c = of_char c - 48"

text \<open>\<^verbatim>\<open>int(s)\<close> for a string of decimal digits (the only strings the programs pass).\<close>

definition int_of_digits :: "string \<Rightarrow> nat" where
  "int_of_digits s = foldl (\<lambda>acc c. 10 * acc + digit_val c) 0 s"

definition digit_char :: "nat \<Rightarrow> char" where
  "digit_char n = ''0123456789'' ! n"

fun digits :: "nat \<Rightarrow> string" where
  "digits n = (if n < 10 then [digit_char n] else digits (n div 10) @ [digit_char (n mod 10)])"

declare digits.simps [simp del]

text \<open>A number in at least \<open>k\<close> digits, zero-padded: \<^verbatim>\<open>%Y\<close> (4), \<^verbatim>\<open>%m %d %H %M %S\<close> (2).\<close>

definition pad :: "nat \<Rightarrow> nat \<Rightarrow> string" where
  "pad k n = replicate (k - length (digits n)) (CHR ''0'') @ digits n"

text \<open>\<^verbatim>\<open>needle in haystack\<close> for strings.\<close>

fun is_prefix :: "string \<Rightarrow> string \<Rightarrow> bool" where
  "is_prefix [] s = True"
| "is_prefix (c # cs) [] = False"
| "is_prefix (c # cs) (d # ds) = (c = d \<and> is_prefix cs ds)"

fun contains :: "string \<Rightarrow> string \<Rightarrow> bool" where
  "contains needle [] = (needle = [])"
| "contains needle (c # cs) = (is_prefix needle (c # cs) \<or> contains needle cs)"

definition lower_char :: "char \<Rightarrow> char" where
  "lower_char c =
     (if c \<in> set ''ABCDEFGHIJKLMNOPQRSTUVWXYZ'' then char_of (of_char c + (32::nat)) else c)"

definition lower :: "string \<Rightarrow> string" where
  "lower s = map lower_char s"

text \<open>\<^verbatim>\<open>s.rfind(c)\<close>: the index of the last occurrence, or \<open>-1\<close>.\<close>

fun rfind_from :: "char \<Rightarrow> string \<Rightarrow> int \<Rightarrow> int \<Rightarrow> int" where
  "rfind_from x [] i found = found"
| "rfind_from x (c # cs) i found = rfind_from x cs (i + 1) (if c = x then i else found)"

definition rfind :: "char \<Rightarrow> string \<Rightarrow> int" where
  "rfind x s = rfind_from x s 0 (- 1)"

section \<open>Naive local date-times\<close>

text \<open>
  \<^verbatim>\<open>datetime.datetime\<close>. The constructor raises \<^verbatim>\<open>ValueError\<close> outside
  years 1 to 9999 and for a day that the month does not have.
\<close>

datatype exn =
    ValueError
  | FileNotFoundError
  | SubprocessFailure
  | InvalidImageDataError
  | PermissionError

record datetime =
  year :: nat
  month :: nat
  day :: nat
  hour :: nat
  minute :: nat
  second :: nat
  microsecond :: nat

definition is_leap :: "nat \<Rightarrow> bool" where
  "is_leap y = (y mod 4 = 0 \<and> (y mod 100 \<noteq> 0 \<or> y mod 400 = 0))"

definition days_in_month :: "nat \<Rightarrow> nat \<Rightarrow> nat" where
  "days_in_month y m =
     (if m = 2 then (if is_leap y then 29 else 28)
      else if m \<in> set [4, 6, 9, 11] then 30 else 31)"

definition valid_date :: "nat \<Rightarrow> nat \<Rightarrow> nat \<Rightarrow> bool" where
  "valid_date y m d =
     (1 \<le> y \<and> y \<le> 9999 \<and> 1 \<le> m \<and> m \<le> 12 \<and> 1 \<le> d \<and> d \<le> days_in_month y m)"

definition mk_datetime :: "nat \<Rightarrow> nat \<Rightarrow> nat \<Rightarrow> nat \<Rightarrow> nat \<Rightarrow> nat \<Rightarrow> exn + datetime" where
  "mk_datetime y m d hh mi ss =
     (if valid_date y m d \<and> hh < 24 \<and> mi < 60 \<and> ss < 60
      then Inr \<lparr>year = y, month = m, day = d, hour = hh, minute = mi, second = ss,
                microsecond = 0\<rparr>
      else Inl ValueError)"

definition dt_key :: "datetime \<Rightarrow> nat list" where
  "dt_key t = [year t, month t, day t, hour t, minute t, second t, microsecond t]"

fun lex_lt :: "nat list \<Rightarrow> nat list \<Rightarrow> bool" where
  "lex_lt [] ys = (ys \<noteq> [])"
| "lex_lt (x # xs) [] = False"
| "lex_lt (x # xs) (y # ys) = (x < y \<or> (x = y \<and> lex_lt xs ys))"

definition dt_lt :: "datetime \<Rightarrow> datetime \<Rightarrow> bool" where
  "dt_lt a b = lex_lt (dt_key a) (dt_key b)"

text \<open>\<^verbatim>\<open>min(a, b)\<close>: the first argument unless the second is smaller.\<close>

definition min_dt :: "datetime \<Rightarrow> datetime \<Rightarrow> datetime" where
  "min_dt a b = (if dt_lt b a then b else a)"

text \<open>\<^verbatim>\<open>strftime("%Y-%m-%dT%H:%M:%S")\<close> and \<^verbatim>\<open>strftime("%Y:%m:%d %H:%M:%S")\<close>.\<close>

definition strftime_iso :: "datetime \<Rightarrow> string" where
  "strftime_iso t =
     pad 4 (year t) @ ''-'' @ pad 2 (month t) @ ''-'' @ pad 2 (day t) @ ''T'' @
     pad 2 (hour t) @ '':'' @ pad 2 (minute t) @ '':'' @ pad 2 (second t)"

definition strftime_exif :: "datetime \<Rightarrow> string" where
  "strftime_exif t =
     pad 4 (year t) @ '':'' @ pad 2 (month t) @ '':'' @ pad 2 (day t) @ '' '' @
     pad 2 (hour t) @ '':'' @ pad 2 (minute t) @ '':'' @ pad 2 (second t)"

section \<open>Files and the file system\<close>

text \<open>
  A file has its three OS timestamps, kept as the naive local date-times that
  \<^verbatim>\<open>datetime.fromtimestamp\<close> gives for them, and its content: the tag map that
  \<^verbatim>\<open>piexif.load\<close> reads from it (\<open>None\<close> when \<^verbatim>\<open>piexif.load\<close> raises), the container's
  \<^verbatim>\<open>creation_time\<close> metadata, and the remaining bytes. The file system maps paths to files.
  A tag's value is a byte string or something else (a number, a tuple).
\<close>

datatype exif_value = EBytes string | EOther

type_synonym ifd = "(nat \<times> exif_value) list"

record exif_dict =
  zeroth :: ifd
  exif_ifd :: ifd

record media_file =
  st_atime :: datetime
  st_mtime :: datetime
  st_ctime :: datetime
  exif_data :: "exif_dict option"
  creation_time :: "string option"
  body :: string

type_synonym path = string

type_synonym filesystem = "path \<Rightarrow> media_file option"

definition os_path_exists :: "filesystem \<Rightarrow> path \<Rightarrow> bool" where
  "os_path_exists fs p = (fs p \<noteq> None)"

definition os_remove :: "filesystem \<Rightarrow> path \<Rightarrow> exn + filesystem" where
  "os_remove fs p = (if fs p = None then Inl FileNotFoundError else Inr (fs(p := None)))"

definition os_replace :: "filesystem \<Rightarrow> path \<Rightarrow> path \<Rightarrow> exn + filesystem" where
  "os_replace fs src dst =
     (case fs src of
        None \<Rightarrow> Inl FileNotFoundError
      | Some f \<Rightarrow> Inr ((fs(src := None))(dst \<mapsto> f)))"


section \<open>Paths\<close>

text \<open>
  Windows paths (\<^verbatim>\<open>ROOT_DIR\<close> is a folder of drive \<^verbatim>\<open>C:\<close>): both the backslash and
  \<^verbatim>\<open>/\<close> separate components.
\<close>

definition is_sep :: "char \<Rightarrow> bool" where
  "is_sep c = (c = bslash \<or> c = CHR ''/'')"

text \<open>
  \<^verbatim>\<open>os.path.splitext\<close>: split at the last dot of the last component, unless that
  component has only dots before it.
\<close>

definition splitext :: "path \<Rightarrow> path \<times> string" where
  "splitext p =
     (let sepIndex = max (rfind bslash p) (rfind (CHR ''/'') p);
          dotIndex = rfind (CHR ''.'') p
      in if dotIndex > sepIndex \<and>
            list_ex (\<lambda>c. c \<noteq> CHR ''.'')
              (take (nat dotIndex - nat (sepIndex + 1)) (drop (nat (sepIndex + 1)) p))
         then (take (nat dotIndex) p, drop (nat dotIndex) p)
         else (p, []))"

text \<open>\<^verbatim>\<open>os.path.join(root, file)\<close> for a plain file name.\<close>

definition os_path_join :: "path \<Rightarrow> string \<Rightarrow> path" where
  "os_path_join root name =
     (if root = [] then name
      else if is_sep (last root) \<or> last root = CHR '':'' then root @ name
      else root @ [bslash] @ name)"

text \<open>
  The regular expression search of \<^verbatim>\<open>get_best_file_time\<close>: group 1 of the leftmost
  match of a separator, four digits (the group) and, looked ahead, a separator.
\<close>

fun re_search_folder_year :: "path \<Rightarrow> string option" where
  "re_search_folder_year [] = None"
| "re_search_folder_year (c # cs) =
     (if is_sep c \<and> 5 \<le> length cs \<and> list_all is_digit (take 4 cs) \<and> is_sep (cs ! 4)
      then Some (take 4 cs)
      else re_search_folder_year cs)"

section \<open>script.py: the timestamp resolver\<close>

definition get_best_file_time :: "filesystem \<Rightarrow> path \<Rightarrow> exn + datetime" where
  "get_best_file_time fs path =
     (case fs path of
        None \<Rightarrow> Inl FileNotFoundError
      | Some f \<Rightarrow>
          let created = st_ctime f;
              modified = st_mtime f;
              best_time = min_dt created modified
          in (case re_search_folder_year path of
                None \<Rightarrow> Inr best_time
              | Some g \<Rightarrow>
                  let folder_year = int_of_digits g
                  in if year best_time > folder_year
                     then mk_datetime folder_year 12 31 23 59 59
                     else Inr best_time))"

section \<open>script.py: run state and external collaborators\<close>

text \<open>The \<^verbatim>\<open>stats\<close> dictionary, and the state of a run: the counters and the file system.\<close>

record run_stats =
  scanned :: nat
  photos_changed :: nat
  videos_changed :: nat
  skipped :: nat
  errors :: nat

record world =
  stats :: run_stats
  fsys :: filesystem

definition add_photos_changed :: "world \<Rightarrow> world" where
  "add_photos_changed w = w\<lparr>stats := (stats w)\<lparr>photos_changed := photos_changed (stats w) + 1\<rparr>\<rparr>"

definition add_videos_changed :: "world \<Rightarrow> world" where
  "add_videos_changed w = w\<lparr>stats := (stats w)\<lparr>videos_changed := videos_changed (stats w) + 1\<rparr>\<rparr>"

definition add_skipped :: "world \<Rightarrow> world" where
  "add_skipped w = w\<lparr>stats := (stats w)\<lparr>skipped := skipped (stats w) + 1\<rparr>\<rparr>"

definition add_errors :: "world \<Rightarrow> world" where
  "add_errors w = w\<lparr>stats := (stats w)\<lparr>errors := errors (stats w) + 1\<rparr>\<rparr>"

definition add_scanned :: "world \<Rightarrow> world" where
  "add_scanned w = w\<lparr>stats := (stats w)\<lparr>scanned := scanned (stats w) + 1\<rparr>\<rparr>"

text \<open>
  What lies outside the programs is an environment: the two command-line flags, and the
  outcome of every call of an external collaborator. A run of \<^verbatim>\<open>ffmpeg\<close> with an argument
  list either cannot be started (\<^verbatim>\<open>subprocess.run\<close> raises) or exits with a return code,
  its captured \<^verbatim>\<open>stderr\<close>, and the file it has left at its output path (\<open>None\<close> when
  it has written nothing). \<^verbatim>\<open>piexif.dump\<close>, \<^verbatim>\<open>piexif.insert\<close> and opening a file
  for writing succeed or raise; a write sets the file's times to \<open>now\<close>.
  \<^verbatim>\<open>os.path.exists\<close>, \<^verbatim>\<open>os.remove\<close>, \<^verbatim>\<open>os.replace\<close> and \<^verbatim>\<open>os.utime\<close> act on the file
  system of the model and raise only for a file that is not there. Console output is
  left out.
\<close>

datatype proc_result = Raises exn | Exits int string "media_file option"

record env =
  DRY_RUN :: bool
  DELETE_ORIGINALS :: bool
  ffmpeg :: "string list \<Rightarrow> proc_result"
  piexif_dump_ok :: "exif_dict \<Rightarrow> bool"
  piexif_insert_ok :: "path \<Rightarrow> bool"
  open_write_ok :: "path \<Rightarrow> bool"
  now :: datetime

text \<open>
  \<^verbatim>\<open>subprocess.run(args, capture_output=True, text=True)\<close> for \<^verbatim>\<open>ffmpeg\<close>, with the
  output path among the arguments (\<open>None\<close> for the probe, which names no output).
\<close>

definition subprocess_run ::
  "env \<Rightarrow> string list \<Rightarrow> path option \<Rightarrow> filesystem \<Rightarrow> exn + (int \<times> string \<times> filesystem)" where
  "subprocess_run e args out fs =
     (case ffmpeg e args of
        Raises x \<Rightarrow> Inl x
      | Exits rc err written \<Rightarrow>
          Inr (rc, err,
               (case out of
                  None \<Rightarrow> fs
                | Some p \<Rightarrow> (case written of None \<Rightarrow> fs | Some f \<Rightarrow> fs(p \<mapsto> f)))))"

definition DateTimeOriginal :: nat where
  "DateTimeOriginal = 36867"



definition piexif_load :: "filesystem \<Rightarrow> path \<Rightarrow> exn + exif_dict" where
  "piexif_load fs p =
     (case fs p of
        None \<Rightarrow> Inl FileNotFoundError
      | Some f \<Rightarrow> (case exif_data f of None \<Rightarrow> Inl InvalidImageDataError | Some d \<Rightarrow> Inr d))"

text \<open>The bytes that \<^verbatim>\<open>piexif.dump\<close> returns stand for the tag map they encode.\<close>

definition piexif_dump :: "env \<Rightarrow> exif_dict \<Rightarrow> exn + exif_dict" where
  "piexif_dump e d = (if piexif_dump_ok e d then Inr d else Inl ValueError)"

definition piexif_insert :: "env \<Rightarrow> exif_dict \<Rightarrow> filesystem \<Rightarrow> path \<Rightarrow> exn + filesystem" where
  "piexif_insert e exif_bytes fs p =
     (case fs p of
        None \<Rightarrow> Inl FileNotFoundError
      | Some f \<Rightarrow>
          if piexif_insert_ok e p
          then Inr (fs(p \<mapsto> f\<lparr>st_atime := now e, st_mtime := now e,
                               exif_data := Some exif_bytes\<rparr>))
          else Inl InvalidImageDataError)"

text \<open>\<^verbatim>\<open>open(p, "w")\<close> and \<^verbatim>\<open>write(text)\<close>: the file is created or truncated.\<close>

definition write_text :: "env \<Rightarrow> filesystem \<Rightarrow> path \<Rightarrow> string \<Rightarrow> exn + filesystem" where
  "write_text e fs p txt =
     (if open_write_ok e p
      then Inr (fs(p \<mapsto>
             (case fs p of
                None \<Rightarrow> \<lparr>st_atime = now e, st_mtime = now e, st_ctime = now e,
                          exif_data = None, creation_time = None, body = txt\<rparr>
              | Some f \<Rightarrow> f\<lparr>st_mtime := now e, exif_data := None, creation_time := None,
                              body := txt\<rparr>)))
      else Inl PermissionError)"

section \<open>script.py: the write strategies\<close>

definition has_exif_datetime :: "filesystem \<Rightarrow> path \<Rightarrow> bool" where
  "has_exif_datetime fs path =
     (case piexif_load fs path of
        Inl x \<Rightarrow> False
      | Inr exif_dict \<Rightarrow> map_of (exif_ifd exif_dict) DateTimeOriginal \<noteq> None)"

definition set_exif_datetime :: "env \<Rightarrow> path \<Rightarrow> datetime \<Rightarrow> world \<Rightarrow> exn + world" where
  "set_exif_datetime e path dt w =
     (let formatted = strftime_exif dt
      in if DRY_RUN e then Inr (add_photos_changed w)
         else (case piexif_load (fsys w) path of
                 Inl x \<Rightarrow> Inl x
               | Inr exif_dict \<Rightarrow>
                   let exif_dict' = exif_dict\<lparr>exif_ifd :=
                         AList.update DateTimeOriginal (EBytes formatted) (exif_ifd exif_dict)\<rparr>
                   in (case piexif_dump e exif_dict' of
                         Inl x \<Rightarrow> Inl x
                       | Inr exif_bytes \<Rightarrow>
                           (case piexif_insert e exif_bytes (fsys w) path of
                              Inl x \<Rightarrow> Inl x
                            | Inr fs' \<Rightarrow> Inr (add_photos_changed (w\<lparr>fsys := fs'\<rparr>))))))"

definition xmp_template :: "string \<Rightarrow> string" where
  "xmp_template formatted =
     ''<?xpacket begin='' @ [apos, apos] @ '' id='' @ [apos] @ ''W5M0MpCehiHzreSzNTczkc9d'' @
       [apos] @ ''?>'' @ [newline] @
     ''<x:xmpmeta xmlns:x='' @ [apos] @ ''adobe:ns:meta/'' @ [apos] @ '' x:xmptk='' @ [apos] @
       ''Python-Sidecar-Generator'' @ [apos] @ ''>'' @ [newline] @
     '' <rdf:RDF xmlns:rdf='' @ [apos] @ ''http://www.w3.org/1999/02/22-rdf-syntax-ns#'' @
       [apos] @ ''>'' @ [newline] @
     ''  <rdf:Description rdf:about='' @ [apos, apos] @ [newline] @
     ''    xmlns:xmp='' @ [apos] @ ''http://ns.adobe.com/xap/1.0/'' @ [apos] @ ''>'' @ [newline] @
     ''   <xmp:CreateDate>'' @ formatted @ ''</xmp:CreateDate>'' @ [newline] @
     ''  </rdf:Description>'' @ [newline] @
     '' </rdf:RDF>'' @ [newline] @
     ''</x:xmpmeta>'' @ [newline] @
     ''<?xpacket end='' @ [apos] @ ''w'' @ [apos] @ ''?>''"

definition create_xmp_sidecar :: "env \<Rightarrow> path \<Rightarrow> datetime \<Rightarrow> world \<Rightarrow> world" where
  "create_xmp_sidecar e path dt w =
     (let sidecar_path = path @ ''.xmp'';
          formatted = strftime_iso dt
      in if DRY_RUN e then add_photos_changed w
         else (case write_text e (fsys w) sidecar_path (xmp_template formatted) of
                 Inr fs' \<Rightarrow> add_photos_changed (w\<lparr>fsys := fs'\<rparr>)
               | Inl x \<Rightarrow> add_errors w))"

definition process_photo :: "env \<Rightarrow> path \<Rightarrow> world \<Rightarrow> exn + world" where
  "process_photo e path w =
     (let ext = lower (snd (splitext path))
      in if ext \<notin> set [''.jpg'', ''.jpeg'', ''.tif'', ''.tiff''] then Inr (add_skipped w)
         else if \<not> has_exif_datetime (fsys w) path
         then (case get_best_file_time (fsys w) path of
                 Inl x \<Rightarrow> Inl x
               | Inr chosen_dt \<Rightarrow>
                   if DRY_RUN e then Inr (add_photos_changed w)
                   else (case set_exif_datetime e path chosen_dt w of
                           Inr w' \<Rightarrow> Inr w'
                         | Inl x \<Rightarrow> Inr (add_errors w)))
         else Inr (add_skipped w))"

text \<open>
  The three statements that end both failure branches of \<^verbatim>\<open>process_video\<close>: count an
  error and remove the temp file if it exists.
\<close>

definition video_failed :: "path \<Rightarrow> world \<Rightarrow> exn + world" where
  "video_failed tmpfile w =
     (let w1 = add_errors w
      in if os_path_exists (fsys w1) tmpfile
         then (case os_remove (fsys w1) tmpfile of
                 Inl x \<Rightarrow> Inl x
               | Inr fs' \<Rightarrow> Inr (w1\<lparr>fsys := fs'\<rparr>))
         else Inr w1)"

definition process_video :: "env \<Rightarrow> path \<Rightarrow> world \<Rightarrow> exn + world" where
  "process_video e path w =
     (case get_best_file_time (fsys w) path of
        Inl x \<Rightarrow> Inl x
      | Inr chosen_dt \<Rightarrow>
          let formatted = strftime_iso chosen_dt;
              root = fst (splitext path);
              ext = snd (splitext path);
              tmpfile = root @ ''.tmp'' @ ext
          in (case subprocess_run e [''ffmpeg'', ''-i'', path] None (fsys w) of
                Inl x \<Rightarrow> Inl x
              | Inr (probe_rc, probe_stderr, fs0) \<Rightarrow>
                  if \<not> contains ''Stream #'' probe_stderr then Inr (add_skipped w)
                  else if DRY_RUN e then Inr (add_videos_changed w)
                  else (case subprocess_run e
                               [''ffmpeg'', ''-i'', path, ''-metadata'',
                                ''creation_time='' @ formatted, ''-codec'', ''copy'', tmpfile, ''-y'']
                               (Some tmpfile) (fsys w) of
                          Inl x \<Rightarrow> video_failed tmpfile w
                        | Inr (returncode, err, fs1) \<Rightarrow>
                            if returncode = 0
                            then (case os_replace fs1 tmpfile path of
                                    Inl x \<Rightarrow> video_failed tmpfile (w\<lparr>fsys := fs1\<rparr>)
                                  | Inr fs2 \<Rightarrow> Inr (add_videos_changed (w\<lparr>fsys := fs2\<rparr>)))
                            else (case video_failed tmpfile (w\<lparr>fsys := fs1\<rparr>) of
                                    Inl x \<Rightarrow> video_failed tmpfile (add_errors (w\<lparr>fsys := fs1\<rparr>))
                                  | Inr w' \<Rightarrow> Inr w'))))"

text \<open>\<^verbatim>\<open>process_avi\<close> returns a truth value; it touches no counter.\<close>

definition process_avi :: "env \<Rightarrow> path \<Rightarrow> world \<Rightarrow> exn + (bool \<times> world)" where
  "process_avi e path w =
     (case get_best_file_time (fsys w) path of
        Inl x \<Rightarrow> Inl x
      | Inr chosen_dt \<Rightarrow>
          let formatted = strftime_iso chosen_dt;
              output_file = fst (splitext path) @ ''.mp4'';
              cmd = [''ffmpeg'', ''-i'', path,
                     ''-c:v'', ''libx264'', ''-crf'', ''20'', ''-preset'', ''slow'',
                     ''-vf'', ''format=yuv420p'',
                     ''-c:a'', ''aac'', ''-b:a'', ''192k'', ''-ac'', ''2'',
                     ''-movflags'', ''+faststart'',
                     ''-metadata'', ''creation_time='' @ formatted,
                     output_file, ''-y'']
          in if DRY_RUN e then Inr (True, w)
             else (case subprocess_run e cmd (Some output_file) (fsys w) of
                     Inl x \<Rightarrow> Inr (False, w)
                   | Inr (returncode, err, fs1) \<Rightarrow>
                       if returncode \<noteq> 0 then Inr (False, w\<lparr>fsys := fs1\<rparr>)
                       else if DELETE_ORIGINALS e
                       then (case os_remove fs1 path of
                               Inr fs2 \<Rightarrow> Inr (True, w\<lparr>fsys := fs2\<rparr>)
                             | Inl x \<Rightarrow> Inr (True, w\<lparr>fsys := fs1\<rparr>))
                       else Inr (True, w\<lparr>fsys := fs1\<rparr>)))"

section \<open>script.py: the batch\<close>

text \<open>
  The body of the inner loop of \<^verbatim>\<open>main\<close> for one path, the inner loop over the files
  of one directory, and the outer loop over what \<^verbatim>\<open>os.walk\<close> yields (each directory with
  its file names). \<open>Inl\<close> is an exception that leaves \<^verbatim>\<open>main\<close>: the run ends there.
\<close>

definition main_body :: "env \<Rightarrow> path \<Rightarrow> world \<Rightarrow> exn + world" where
  "main_body e path w0 =
     (let ext = lower (snd (splitext path));
          w = add_scanned w0
      in if ext \<in> set [''.jpg'', ''.jpeg'', ''.tif'', ''.tiff''] then process_photo e path w
         else if ext \<in> set [''.png'', ''.bmp'', ''.gif'', ''.webp'']
         then (case get_best_file_time (fsys w) path of
                 Inl x \<Rightarrow> Inl x
               | Inr chosen_dt \<Rightarrow> Inr (create_xmp_sidecar e path chosen_dt w))
         else if ext = ''.avi''
         then (case process_avi e path w of Inl x \<Rightarrow> Inl x | Inr (ok, w') \<Rightarrow> Inr w')
         else if ext \<in> set [''.mp4'', ''.mov'', ''.m4v'', ''.3gp'', ''.3g2'']
         then process_video e path w
         else Inr (add_skipped w))"

fun main_files :: "env \<Rightarrow> path \<Rightarrow> string list \<Rightarrow> world \<Rightarrow> exn + world" where
  "main_files e root [] w = Inr w"
| "main_files e root (name # names) w =
     (case main_body e (os_path_join root name) w of
        Inl x \<Rightarrow> Inl x
      | Inr w' \<Rightarrow> main_files e root names w')"

fun main :: "env \<Rightarrow> (path \<times> string list) list \<Rightarrow> world \<Rightarrow> exn + world" where
  "main e [] w = Inr w"
| "main e ((root, names) # rest) w =
     (case main_files e root names w of
        Inl x \<Rightarrow> Inl x
      | Inr w' \<Rightarrow> main e rest w')"

section \<open>whatsapp.py: EXIF helpers\<close>









section \<open>whatsapp.py: filename parsing\<close>

text \<open>
  The five regular expressions are anchored sequences of literals, character classes and
  fixed counts of digits, so each is matched from the left by the pieces below; a match
  yields its dictionary of named groups. A pattern also carries its source text, which
  \<^verbatim>\<open>parse_datetime_from_filename\<close> inspects.
\<close>

type_synonym groupdict = "(string \<times> string) list"

definition take_lit :: "string \<Rightarrow> string \<Rightarrow> string option" where
  "take_lit lit s = (if is_prefix lit s then Some (drop (length lit) s) else None)"

definition take_digits :: "nat \<Rightarrow> string \<Rightarrow> (string \<times> string) option" where
  "take_digits n s =
     (if n \<le> length s \<and> list_all is_digit (take n s) then Some (take n s, drop n s) else None)"

definition take_class :: "string \<Rightarrow> string \<Rightarrow> (char \<times> string) option" where
  "take_class cls s = (case s of [] \<Rightarrow> None | c # cs \<Rightarrow> if c \<in> set cls then Some (c, cs) else None)"

record pattern =
  pattern_text :: string
  matcher :: "string \<Rightarrow> groupdict option"

definition match_whatsapp :: "string \<Rightarrow> groupdict option" where
  "match_whatsapp s = do {
     r1 \<leftarrow> (case take_lit ''IMG'' s of Some r \<Rightarrow> Some r | None \<Rightarrow> take_lit ''VID'' s);
     r2 \<leftarrow> take_lit ''-'' r1;
     (date, r3) \<leftarrow> take_digits 8 r2;
     r4 \<leftarrow> take_lit ''-WA'' r3;
     (w, r5) \<leftarrow> take_digits 1 r4;
     Some [(''date'', date)]
   }"

definition match_pxl :: "string \<Rightarrow> groupdict option" where
  "match_pxl s = do {
     r1 \<leftarrow> take_lit ''PXL_'' s;
     (date, r2) \<leftarrow> take_digits 8 r1;
     r3 \<leftarrow> take_lit ''_'' r2;
     (time, r4) \<leftarrow> take_digits 6 r3;
     Some [(''date'', date), (''time'', time)]
   }"

definition match_samsung :: "string \<Rightarrow> groupdict option" where
  "match_samsung s = do {
     (date, r1) \<leftarrow> take_digits 8 s;
     (sep, r2) \<leftarrow> take_class ''_-'' r1;
     (time, r3) \<leftarrow> take_digits 6 r2;
     Some [(''date'', date), (''time'', time)]
   }"

definition match_ios :: "string \<Rightarrow> groupdict option" where
  "match_ios s = do {
     (y, r1) \<leftarrow> take_digits 4 s;
     (s1, r2) \<leftarrow> take_class ''-_'' r1;
     (mo, r3) \<leftarrow> take_digits 2 r2;
     (s2, r4) \<leftarrow> take_class ''-_'' r3;
     (d, r5) \<leftarrow> take_digits 2 r4;
     (s3, r6) \<leftarrow> take_class '' _T.-'' r5;
     (time, r7) \<leftarrow> take_digits 2 r6;
     (s4, r8) \<leftarrow> take_class ''.-_:'' r7;
     (mi, r9) \<leftarrow> take_digits 2 r8;
     (s5, r10) \<leftarrow> take_class ''.-_:'' r9;
     (sec, r11) \<leftarrow> take_digits 2 r10;
     Some [(''date'', y @ [s1] @ mo @ [s2] @ d), (''time'', time), (''min'', mi), (''sec'', sec)]
   }"

definition match_generic :: "string \<Rightarrow> groupdict option" where
  "match_generic s = do {
     (date, r1) \<leftarrow> take_digits 8 s;
     Some [(''date'', date)]
   }"

definition FILENAME_PATTERNS :: "pattern list" where
  "FILENAME_PATTERNS =
     [\<lparr>pattern_text = ''^(?:IMG|VID)-(?P<date>'' @ [bslash] @ ''d{8})-WA'' @ [bslash] @ ''d+'',
       matcher = match_whatsapp\<rparr>,
      \<lparr>pattern_text = ''^PXL_(?P<date>'' @ [bslash] @ ''d{8})_(?P<time>'' @ [bslash] @ ''d{6})'',
       matcher = match_pxl\<rparr>,
      \<lparr>pattern_text = ''^(?P<date>'' @ [bslash] @ ''d{8})[_-](?P<time>'' @ [bslash] @ ''d{6})'',
       matcher = match_samsung\<rparr>,
      \<lparr>pattern_text =
         ''^(?P<date>'' @ [bslash] @ ''d{4}[-_]'' @ [bslash] @ ''d{2}[-_]'' @ [bslash] @
         ''d{2})[ _T.-](?P<time>'' @ [bslash] @ ''d{2})[.'' @ [bslash] @ ''-_:](?P<min>'' @
         [bslash] @ ''d{2})[.'' @ [bslash] @ ''-_:](?P<sec>'' @ [bslash] @ ''d{2})'',
       matcher = match_ios\<rparr>,
      \<lparr>pattern_text = ''^(?P<date>'' @ [bslash] @ ''d{8})'',
       matcher = match_generic\<rparr>]"

text \<open>\<^verbatim>\<open>Path(p).name\<close> and \<^verbatim>\<open>Path(name).stem\<close> (pathlib before Python 3.14).\<close>

definition path_name :: "path \<Rightarrow> string" where
  "path_name p = drop (nat (max (rfind bslash p) (rfind (CHR ''/'') p) + 1)) p"

definition path_stem :: "string \<Rightarrow> string" where
  "path_stem name =
     (let i = rfind (CHR ''.'') name
      in if 0 < i \<and> i < int (length name) - 1 then take (nat i) name else name)"

text \<open>\<^verbatim>\<open>re.split(r"[-_]", s)\<close>.\<close>

fun re_split_acc :: "string \<Rightarrow> string \<Rightarrow> string list" where
  "re_split_acc cur [] = [rev cur]"
| "re_split_acc cur (c # cs) =
     (if c = CHR ''-'' \<or> c = CHR ''_'' then rev cur # re_split_acc [] cs
      else re_split_acc (c # cur) cs)"

definition re_split :: "string \<Rightarrow> string list" where
  "re_split s = re_split_acc [] s"

definition truthy :: "string option \<Rightarrow> bool" where
  "truthy v = (case v of None \<Rightarrow> False | Some s \<Rightarrow> s \<noteq> [])"

definition has_key :: "groupdict \<Rightarrow> string \<Rightarrow> bool" where
  "has_key gd k = (map_of gd k \<noteq> None)"

definition startswith :: "string \<Rightarrow> string \<Rightarrow> bool" where
  "startswith s p = is_prefix p s"

text \<open>
  The body of the loop of \<^verbatim>\<open>parse_datetime_from_filename\<close> for one pattern: \<open>None\<close>
  is \<^verbatim>\<open>continue\<close>, \<open>Some\<close> is the returned pair. The two assignments to the local
  \<^verbatim>\<open>hh\<close>, which is never read, are left out.
\<close>

definition try_pattern :: "pattern \<Rightarrow> string \<Rightarrow> (string \<times> string option) option" where
  "try_pattern pat stem =
     (case matcher pat stem of
        None \<Rightarrow> None
      | Some gd \<Rightarrow>
          (case map_of gd ''date'' of
             None \<Rightarrow> None
           | Some date_raw0 \<Rightarrow>
               if date_raw0 = [] then None
               else
                 let date_raw =
                       (if CHR ''-'' \<in> set date_raw0 \<or> CHR ''_'' \<in> set date_raw0
                        then (let parts = re_split date_raw0
                              in if length parts = 3 then concat parts else date_raw0)
                        else date_raw0);
                     time_raw1 =
                       (if has_key gd ''time'' \<and> truthy (map_of gd ''time'')
                        then map_of gd ''time'' else None);
                     time_raw2 =
                       (if startswith (pattern_text pat) ''^('' = False \<and>
                           has_key gd ''min'' \<and> has_key gd ''sec'' \<and>
                           truthy (map_of gd ''min'') \<and> truthy (map_of gd ''sec'')
                        then (case (map_of gd ''time'', map_of gd ''min'', map_of gd ''sec'') of
                                (Some hh, Some mi, Some ss) \<Rightarrow>
                                  if hh \<noteq> [] then Some (hh @ mi @ ss) else time_raw1
                              | _ \<Rightarrow> time_raw1)
                        else time_raw1)
                 in if length date_raw \<noteq> 8 then None
                    else Some (date_raw,
                           (case time_raw2 of
                              None \<Rightarrow> None
                            | Some t \<Rightarrow> if length t \<noteq> 6 then None else Some t))))"

fun parse_patterns :: "pattern list \<Rightarrow> string \<Rightarrow> string option \<times> string option" where
  "parse_patterns [] stem = (None, None)"
| "parse_patterns (pat # pats) stem =
     (case try_pattern pat stem of
        None \<Rightarrow> parse_patterns pats stem
      | Some (date_raw, time_raw) \<Rightarrow> (Some date_raw, time_raw))"

definition parse_datetime_from_filename :: "string \<Rightarrow> string option \<times> string option" where
  "parse_datetime_from_filename name =
     parse_patterns FILENAME_PATTERNS (path_stem (path_name name))"

text \<open>
  \<^verbatim>\<open>int(s)\<close> raises \<^verbatim>\<open>ValueError\<close> for a string that is not a number; the signs, blanks
  and underscores that it also accepts do not occur in what the parser returns.
\<close>

definition py_int :: "string \<Rightarrow> exn + nat" where
  "py_int s = (if s \<noteq> [] \<and> list_all is_digit s then Inr (int_of_digits s) else Inl ValueError)"

definition bind_exn :: "exn + 'a \<Rightarrow> ('a \<Rightarrow> exn + 'b) \<Rightarrow> exn + 'b" where
  "bind_exn r f = (case r of Inl x \<Rightarrow> Inl x | Inr v \<Rightarrow> f v)"

definition compose_datetime ::
  "string \<Rightarrow> string option \<Rightarrow> string \<Rightarrow> datetime \<Rightarrow> exn + datetime" where
  "compose_datetime date_raw time_raw time_default mtime =
     bind_exn (py_int (take 4 date_raw)) (\<lambda>y.
     bind_exn (py_int (take 2 (drop 4 date_raw))) (\<lambda>mo.
     bind_exn (py_int (take 2 (drop 6 date_raw))) (\<lambda>d.
       if truthy time_raw
       then (case time_raw of
               None \<Rightarrow> Inl ValueError
             | Some t \<Rightarrow>
                 bind_exn (py_int (take 2 t)) (\<lambda>hh.
                 bind_exn (py_int (take 2 (drop 2 t))) (\<lambda>mi.
                 bind_exn (py_int (take 2 (drop 4 t))) (\<lambda>ss.
                   mk_datetime y mo d hh mi ss))))
       else if time_default = ''keep-mtime''
       then mk_datetime y mo d (hour mtime) (minute mtime) (second mtime)
       else if time_default = ''noon'' then mk_datetime y mo d 12 0 0
       else mk_datetime y mo d 0 0 0)))"

section \<open>whatsapp.py: core processing\<close>

record options =
  dry_run :: bool
  show_meta :: bool
  from_filename :: bool
  time_default :: string
  force :: bool



text \<open>
  The part of \<^verbatim>\<open>process_file\<close> under the comment ``Decide source datetime'':
  the date from the file name if asked for and found, else the modified time.
\<close>

definition decide_source :: "options \<Rightarrow> path \<Rightarrow> datetime \<Rightarrow> exn + datetime" where
  "decide_source opts path orig_mtime =
     (case (if from_filename opts
            then (case parse_datetime_from_filename (path_name path) of
                    (Some date_raw, time_raw) \<Rightarrow>
                      if date_raw \<noteq> []
                      then bind_exn (compose_datetime date_raw time_raw (time_default opts) orig_mtime)
                             (\<lambda>dt. Inr (Some dt))
                      else Inr None
                  | (None, time_raw) \<Rightarrow> Inr None)
            else Inr None) of
        Inl x \<Rightarrow> Inl x
      | Inr None \<Rightarrow> Inr orig_mtime
      | Inr (Some dt_source) \<Rightarrow> Inr dt_source)"


section \<open>Example inputs\<close>

text \<open>
  A folder, files and environments for the concrete runs below. The example \<^verbatim>\<open>ffmpeg\<close>
  answers the probe (three arguments) with one result and every other call with another.
\<close>

definition ROOT_DIR :: path where
  "ROOT_DIR = ''C:'' @ [bslash] @ ''siirto''"

definition example_time :: "nat \<Rightarrow> datetime" where
  "example_time y =
     \<lparr>year = y, month = 3, day = 1, hour = 10, minute = 0, second = 0, microsecond = 0\<rparr>"

definition example_file :: "nat \<Rightarrow> nat \<Rightarrow> exif_dict option \<Rightarrow> string option \<Rightarrow> media_file" where
  "example_file cy my ex ct =
     \<lparr>st_atime = example_time my, st_mtime = example_time my, st_ctime = example_time cy,
      exif_data = ex, creation_time = ct, body = ''data''\<rparr>"

definition example_env :: "bool \<Rightarrow> proc_result \<Rightarrow> proc_result \<Rightarrow> env" where
  "example_env dry probe run =
     \<lparr>DRY_RUN = dry, DELETE_ORIGINALS = False,
      ffmpeg = (\<lambda>args. if length args = 3 then probe else run),
      piexif_dump_ok = (\<lambda>d. True), piexif_insert_ok = (\<lambda>p. True),
      open_write_ok = (\<lambda>p. True), now = example_time 2026\<rparr>"

definition example_world :: "(path \<times> media_file) list \<Rightarrow> world" where
  "example_world fl =
     \<lparr>stats = \<lparr>scanned = 0, photos_changed = 0, videos_changed = 0, skipped = 0, errors = 0\<rparr>,
      fsys = map_of fl\<rparr>"

definition probe_ok :: proc_result where
  "probe_ok = Exits 1 ''  Stream #0:0: Video: h264'' None"

definition example_options :: "bool \<Rightarrow> bool \<Rightarrow> options" where
  "example_options dry from_name =
     \<lparr>dry_run = dry, show_meta = False, from_filename = from_name, time_default = ''zero'',
      force = False\<rparr>"





definition whatsapp_path :: path where
  "whatsapp_path = os_path_join ROOT_DIR ''IMG-20210704-WA0001.jpg''"

section \<open>Evaluating the formats\<close>

lemma digits_numeral [simp]:
  "digits (numeral k) =
     (if (numeral k :: nat) < 10 then [digit_char (numeral k)]
      else digits (numeral k div 10) @ [digit_char (numeral k mod 10)])"
  "digits 0 = [digit_char 0]"
  "digits (Suc 0) = [digit_char 1]"
  by (simp_all add: digits.simps)


lemma strftime_iso_example:
  "strftime_iso (example_time 2020) = ''2020-03-01T10:00:00''"
  by (simp add: strftime_iso_def example_time_def pad_def digit_char_def)







section \<open>The filename matcher on the export-tool convention\<close>

text \<open>
  Claim C2 says that a name in the convention \<^verbatim>\<open>YYYY-MM-DD HH.MM.SS\<close> yields the date
  \<^verbatim>\<open>20230115\<close> and the time \<^verbatim>\<open>143000\<close>. The block of \<^verbatim>\<open>parse_datetime_from_filename\<close>
  that joins hour, minute and second is guarded by the pattern text not starting with
  \<^verbatim>\<open>^(\<close>, and every pattern text starts so: the time stays the two-digit hour, which
  the length check then discards. For \<^verbatim>\<open>2023-01-15 14.30.00.jpg\<close> the function returns the
  date alone.
\<close>

theorem C2_export_name_loses_time:
  "parse_datetime_from_filename ''2023-01-15 14.30.00.jpg'' = (Some ''20230115'', None)"
  by code_simp

section \<open>Failures that leave the batch\<close>

text \<open>
  Claim C3 says that no failure while processing one file ends the batch. In
  \<^verbatim>\<open>process_video\<close> the probe call of \<^verbatim>\<open>ffmpeg\<close> stands before the \<^verbatim>\<open>try\<close>: when the
  tool cannot be started, the exception leaves \<^verbatim>\<open>process_video\<close> and \<^verbatim>\<open>main\<close>, and the
  file after it is never processed. The run over \<^verbatim>\<open>a.mp4\<close> and \<^verbatim>\<open>b.jpg\<close> ends with the
  exception.
\<close>

theorem C3_probe_failure_ends_run:
  "main (example_env False (Raises SubprocessFailure) (Raises SubprocessFailure))
     [(ROOT_DIR, [''a.mp4'', ''b.jpg''])]
     (example_world [(os_path_join ROOT_DIR ''a.mp4'', example_file 2020 2020 None None),
                     (os_path_join ROOT_DIR ''b.jpg'', example_file 2020 2020 None None)])
   = Inl SubprocessFailure"
  (is "?run = _")
proof -
  have "map_sum id stats ?run = Inl SubprocessFailure"
    by code_simp
  then show ?thesis
    by (cases ?run) simp_all
qed

section \<open>Counters of the batch\<close>

text \<open>
  Claim C4 says that every file, an \<^verbatim>\<open>.avi\<close> file too, increments exactly one of the
  outcome counters. \<^verbatim>\<open>process_avi\<close> returns a truth value that \<^verbatim>\<open>main\<close> drops, and
  neither touches a counter: after a run over one \<^verbatim>\<open>.avi\<close> file that is converted with
  success, one file is scanned and all four outcome counters are zero.
\<close>

theorem C4_avi_outcome_not_counted:
  "map_sum id stats
     (main (example_env False probe_ok
              (Exits 0 [] (Some (example_file 2026 2026 None (Some ''2020-03-01T10:00:00'')))))
        [(ROOT_DIR, [''clip.avi''])]
        (example_world [(os_path_join ROOT_DIR ''clip.avi'', example_file 2020 2020 None None)]))
   = Inr \<lparr>scanned = 1, photos_changed = 0, videos_changed = 0, skipped = 0, errors = 0\<rparr>"
  by code_simp

section \<open>The timestamp resolver\<close>


















section \<open>The remux of a video\<close>







section \<open>Files that already carry a date\<close>






section \<open>File times after an EXIF write\<close>



section \<open>Simulate mode\<close>






lemma add_scanned_simps [simp]:
  "fsys (add_scanned w) = fsys w"
  "errors (stats (add_scanned w)) = errors (stats w)"
  by (simp_all add: add_scanned_def)




section \<open>Dates from WhatsApp file names\<close>

lemma rfind_from_cases:
  "rfind_from x s i found = found \<or>
   (i \<le> rfind_from x s i found \<and> rfind_from x s i found < i + int (length s) \<and>
    s ! nat (rfind_from x s i found - i) = x)"
proof (induction s arbitrary: i found)
  case Nil
  then show ?case by simp
next
  case (Cons c cs)
  let ?f = "if c = x then i else found"
  let ?r = "rfind_from x cs (i + 1) ?f"
  have r: "rfind_from x (c # cs) i found = ?r"
    by simp
  from Cons.IH [of "i + 1" ?f]
  consider (same) "?r = ?f"
    | (later) "i + 1 \<le> ?r" "?r < i + 1 + int (length cs)" "cs ! nat (?r - (i + 1)) = x"
    by blast
  then show ?case
  proof cases
    case same
    then show ?thesis
      unfolding r by (cases "c = x") simp_all
  next
    case later
    from later(1) have "nat (?r - i) = Suc (nat (?r - (i + 1)))"
      by simp
    with later show ?thesis
      unfolding r by simp
  qed
qed

lemma rfind_cases:
  "rfind x s = - 1 \<or> (0 \<le> rfind x s \<and> nat (rfind x s) < length s \<and> s ! nat (rfind x s) = x)"
  using rfind_from_cases [of x s 0 "- 1"] by (auto simp: rfind_def)

lemma rfind_absent: "x \<notin> set s \<Longrightarrow> rfind x s = - 1"
  using rfind_cases [of x s] by (auto dest: nth_mem)

lemma path_name_plain: "bslash \<notin> set s \<Longrightarrow> CHR ''/'' \<notin> set s \<Longrightarrow> path_name s = s"
  by (simp add: path_name_def rfind_absent)

lemma path_stem_keeps_prefix:
  assumes "CHR ''.'' \<notin> set pre"
  shows "\<exists>rest'. path_stem (pre @ rest) = pre @ rest'"
proof (cases "0 < rfind (CHR ''.'') (pre @ rest) \<and>
    rfind (CHR ''.'') (pre @ rest) < int (length (pre @ rest)) - 1")
  case False
  then show ?thesis
    by (auto simp: path_stem_def Let_def)
next
  case True
  let ?i = "nat (rfind (CHR ''.'') (pre @ rest))"
  from True rfind_cases [of "CHR ''.''" "pre @ rest"]
  have dot: "(pre @ rest) ! ?i = CHR ''.''" and "?i < length (pre @ rest)"
    by auto
  have "length pre \<le> ?i"
  proof (rule ccontr)
    assume "\<not> length pre \<le> ?i"
    then have "?i < length pre"
      by simp
    with dot have "pre ! ?i = CHR ''.''"
      by (simp add: nth_append)
    with \<open>?i < length pre\<close> assms show False
      by (metis nth_mem)
  qed
  then have "take ?i (pre @ rest) = pre @ take (?i - length pre) rest"
    by simp
  with True show ?thesis
    by (auto simp: path_stem_def Let_def)
qed

lemma digit_not_sep:
  "is_digit c \<Longrightarrow> c \<noteq> CHR ''.'' \<and> c \<noteq> CHR ''-'' \<and> c \<noteq> CHR ''_'' \<and> c \<noteq> bslash \<and> c \<noteq> CHR ''/''"
  by (auto simp: is_digit_def bslash_def)

lemma digits_no_char:
  "list_all is_digit s \<Longrightarrow>
   CHR ''.'' \<notin> set s \<and> CHR ''-'' \<notin> set s \<and> CHR ''_'' \<notin> set s \<and> bslash \<notin> set s \<and>
   CHR ''/'' \<notin> set s"
  by (induction s) (auto dest: digit_not_sep)

lemma take_digits_append:
  "length ds = n \<Longrightarrow> list_all is_digit ds \<Longrightarrow> take_digits n (ds @ r) = Some (ds, r)"
  by (simp add: take_digits_def)

lemma match_whatsapp_img:
  assumes "length date = 8" and "list_all is_digit date" and "is_digit c"
  shows "match_whatsapp (''IMG-'' @ date @ ''-WA'' @ c # r) = Some [(''date'', date)]"
proof -
  have "take_digits 1 (c # r) = Some ([c], r)"
    using assms(3) by (simp add: take_digits_def)
  with assms(1,2) show ?thesis
    by (simp add: match_whatsapp_def take_lit_def take_digits_append)
qed

lemma try_pattern_whatsapp:
  assumes "length date = 8" and "list_all is_digit date" and "is_digit c"
    and "matcher pat = match_whatsapp" and "startswith (pattern_text pat) ''^(''"
  shows "try_pattern pat (''IMG-'' @ date @ ''-WA'' @ c # r) = Some (date, None)"
proof -
  from assms(1) have "date \<noteq> []"
    by auto
  moreover from assms(2) have "CHR ''-'' \<notin> set date" "CHR ''_'' \<notin> set date"
    by (simp_all add: digits_no_char)
  moreover from assms(5) have "startswith (pattern_text pat) ''^('' = True"
    by simp
  ultimately show ?thesis
    using assms(1)
    unfolding try_pattern_def assms(4) match_whatsapp_img [OF assms(1-3)]
    by (simp add: has_key_def Let_def)
qed

lemma parse_whatsapp_name:
  assumes "length date = 8" and "list_all is_digit date" and "is_digit c"
    and "bslash \<notin> set rest" and "CHR ''/'' \<notin> set rest"
  shows "parse_datetime_from_filename (''IMG-'' @ date @ ''-WA'' @ c # rest) = (Some date, None)"
proof -
  let ?pre = "''IMG-'' @ date @ ''-WA'' @ [c]"
  let ?name = "''IMG-'' @ date @ ''-WA'' @ c # rest"
  have nm: "?name = ?pre @ rest"
    by simp
  from assms(2,3) have nosep: "bslash \<notin> set ?pre" "CHR ''/'' \<notin> set ?pre" "CHR ''.'' \<notin> set ?pre"
    using digits_no_char [of date] digit_not_sep [of c] by (auto simp: bslash_def)
  with assms(4,5) have "path_name ?name = ?name"
    by (intro path_name_plain) (auto simp: bslash_def)
  moreover from path_stem_keeps_prefix [OF nosep(3), of rest]
  obtain rest' where "path_stem ?name = ?pre @ rest'"
    unfolding nm by blast
  then have "path_stem ?name = ''IMG-'' @ date @ ''-WA'' @ c # rest'"
    by simp
  ultimately have "parse_datetime_from_filename ?name =
    parse_patterns FILENAME_PATTERNS (''IMG-'' @ date @ ''-WA'' @ c # rest')"
    by (simp only: parse_datetime_from_filename_def)
  also have "\<dots> = (Some date, None)"
  proof -
    obtain pat pats where ps: "FILENAME_PATTERNS = pat # pats"
      and m: "matcher pat = match_whatsapp" and st: "startswith (pattern_text pat) ''^(''"
      by (simp add: FILENAME_PATTERNS_def startswith_def)
    show ?thesis
      unfolding ps
      by (simp only: parse_patterns.simps try_pattern_whatsapp [OF assms(1-3) m st]
          option.case prod.case)
  qed
  finally show ?thesis .
qed


lemma py_int_digits:
  "s \<noteq> [] \<Longrightarrow> list_all is_digit s \<Longrightarrow> py_int s = Inr (int_of_digits s)"
  by (simp add: py_int_def)

lemma compose_datetime_zero:
  assumes "length date = 8" and "list_all is_digit date"
    and "valid_date (int_of_digits (take 4 date)) (int_of_digits (take 2 (drop 4 date)))
           (int_of_digits (take 2 (drop 6 date)))"
    and "td \<noteq> ''keep-mtime''" and "td \<noteq> ''noon''"
  shows "compose_datetime date None td mtime =
     Inr \<lparr>year = int_of_digits (take 4 date), month = int_of_digits (take 2 (drop 4 date)),
          day = int_of_digits (take 2 (drop 6 date)), hour = 0, minute = 0, second = 0,
          microsecond = 0\<rparr>"
proof -
  from assms(2) have d: "list_all is_digit (take 4 date)"
    "list_all is_digit (take 2 (drop 4 date))" "list_all is_digit (take 2 (drop 6 date))"
    by (auto simp: list_all_iff dest: in_set_takeD in_set_dropD)
  from assms(1) have n: "take 4 date \<noteq> []" "take 2 (drop 4 date) \<noteq> []"
    "take 2 (drop 6 date) \<noteq> []"
    by auto
  note ints = py_int_digits [OF n(1) d(1)] py_int_digits [OF n(2) d(2)]
    py_int_digits [OF n(3) d(3)]
  show ?thesis
    using assms(3-5)
    unfolding compose_datetime_def ints
    by (simp add: bind_exn_def truthy_def mk_datetime_def)
qed

text \<open>
  Claim C9. For a file whose name starts with \<^verbatim>\<open>IMG-\<close>, eight digits that are a calendar
  date, \<^verbatim>\<open>-WA\<close> and at least one digit, the matcher returns the eight digits and no
  time, and with filename-based resolution requested and the time default \<^verbatim>\<open>zero\<close> the
  resolved instant is that date at 00:00:00, whatever the filesystem-modified time.
  (Eight digits that are no calendar date make the date-time constructor raise.)
\<close>

theorem C9_whatsapp_name_date_at_midnight:
  assumes "path_name path = ''IMG-'' @ date @ ''-WA'' @ c # rest"
    and "length date = 8" and "list_all is_digit date" and "is_digit c"
    and "bslash \<notin> set rest" and "CHR ''/'' \<notin> set rest"
    and "valid_date (int_of_digits (take 4 date)) (int_of_digits (take 2 (drop 4 date)))
           (int_of_digits (take 2 (drop 6 date)))"
    and "from_filename opts" and "time_default opts = ''zero''"
  shows "parse_datetime_from_filename (path_name path) = (Some date, None) \<and>
     decide_source opts path mtime =
       Inr \<lparr>year = int_of_digits (take 4 date), month = int_of_digits (take 2 (drop 4 date)),
            day = int_of_digits (take 2 (drop 6 date)), hour = 0, minute = 0, second = 0,
            microsecond = 0\<rparr>"
proof -
  have p: "parse_datetime_from_filename (path_name path) = (Some date, None)"
    unfolding assms(1) using assms(2-6) by (rule parse_whatsapp_name)
  from assms(2) have "date \<noteq> []"
    by auto
  with p assms(8,9) compose_datetime_zero [OF assms(2,3,7), of "''zero''" mtime] show ?thesis
    by (simp add: decide_source_def bind_exn_def)
qed

text \<open>
  The scenario of the specification: \<^verbatim>\<open>IMG-20210704-WA0001.jpg\<close>, modified in 2022,
  resolves to 2021-07-04T00:00:00.
\<close>

theorem C9_whatsapp_name_date_at_midnight_witness:
  "path_name whatsapp_path = ''IMG-'' @ ''20210704'' @ ''-WA'' @ CHR ''0'' # ''001.jpg'' \<and>
   valid_date 2021 7 4 \<and>
   year (example_time 2022) = 2022 \<and>
   decide_source (example_options True True) whatsapp_path (example_time 2022) =
     Inr \<lparr>year = 2021, month = 7, day = 4, hour = 0, minute = 0, second = 0,
          microsecond = 0\<rparr>"
proof -
  have h1: "path_name whatsapp_path = ''IMG-'' @ ''20210704'' @ ''-WA'' @ CHR ''0'' # ''001.jpg''"
    by code_simp
  have n: "int_of_digits (take 4 ''20210704'') = 2021"
    "int_of_digits (take 2 (drop 4 ''20210704'')) = 7"
    "int_of_digits (take 2 (drop 6 ''20210704'')) = 4"
    by (simp_all add: int_of_digits_def digit_val_def)
  have v: "valid_date 2021 7 4"
    by (simp add: valid_date_def days_in_month_def)
  have h7: "valid_date (int_of_digits (take 4 ''20210704''))
    (int_of_digits (take 2 (drop 4 ''20210704''))) (int_of_digits (take 2 (drop 6 ''20210704'')))"
    unfolding n by (rule v)
  have "decide_source (example_options True True) whatsapp_path (example_time 2022) =
     Inr \<lparr>year = 2021, month = 7, day = 4, hour = 0, minute = 0, second = 0,
          microsecond = 0\<rparr>"
    using C9_whatsapp_name_date_at_midnight [OF h1 _ _ _ _ _ h7,
        of "example_options True True" "example_time 2022"]
    unfolding n by (simp add: is_digit_def bslash_def example_options_def)
  with h1 v show ?thesis
    by (simp add: example_time_def)
qed

end
